theory Spec2Isabelle
  imports Complex_Main "HOL-Library.Multiset"
begin

section \<open>JavaScript numbers\<close>

text \<open>
  Every number of the program is an IEEE 754 binary64 value: \<^verbatim>\<open>price\<close> and \<^verbatim>\<open>total\<close>
  are \<^verbatim>\<open>DataTypes.FLOAT\<close> columns and JavaScript has no other number type.  A finite
  value is carried as the rational it denotes; the two zeros are identified (the sign of
  a zero is visible neither in the JSON reply nor in any branch taken by the order code).
  Each arithmetic operation computes the exact rational result and rounds it to the
  nearest binary64 value, ties to even, overflowing to an infinity.
\<close>

datatype jsnum = NaN | PInf | NInf | Fin rat

definition pow2 :: "int \<Rightarrow> rat" where
  "pow2 e = (if 0 \<le> e then 2 ^ nat e else 1 / 2 ^ nat (- e))"

text \<open>Number of binary digits of a positive integer.\<close>

function bitlen :: "int \<Rightarrow> int" where
  "bitlen n = (if n \<le> 0 then 0 else 1 + bitlen (n div 2))"
  by pat_completeness auto
termination
  by (relation "measure nat") auto

declare bitlen.simps [simp del]

text \<open>\<open>flog2 x\<close> is the integer \<open>k\<close> with \<open>2^k \<le> x < 2^(k+1)\<close>, for \<open>x > 0\<close>.\<close>

definition flog2 :: "rat \<Rightarrow> int" where
  "flog2 x = (if 1 \<le> x then bitlen \<lfloor>x\<rfloor> - 1 else - bitlen (\<lceil>1 / x\<rceil> - 1))"

definition round_half_even :: "rat \<Rightarrow> int" where
  "round_half_even x =
     (let f = \<lfloor>x\<rfloor>; r = x - of_int f
      in if r < 1 / 2 then f
         else if 1 / 2 < r then f + 1
         else if even f then f else f + 1)"

text \<open>
  Rounding of an exact result to binary64: 53 significant bits, least exponent \<open>-1074\<close>
  (subnormals), and infinity from \<open>2^1024\<close> on.
\<close>

definition rd :: "rat \<Rightarrow> jsnum" where
  "rd x =
     (if x = 0 then Fin 0
      else let a = \<bar>x\<bar>;
               e = max (flog2 a - 52) (- 1074);
               y = of_int (round_half_even (a / pow2 e)) * pow2 e
           in if pow2 1024 \<le> y then (if 0 < x then PInf else NInf)
              else Fin (if 0 < x then y else - y))"

text \<open>The values that are binary64 numbers.\<close>

definition is_double :: "rat \<Rightarrow> bool" where
  "is_double x \<longleftrightarrow> rd x = Fin x"

fun js_add :: "jsnum \<Rightarrow> jsnum \<Rightarrow> jsnum" where
  "js_add NaN _ = NaN"
| "js_add _ NaN = NaN"
| "js_add PInf NInf = NaN"
| "js_add NInf PInf = NaN"
| "js_add PInf _ = PInf"
| "js_add _ PInf = PInf"
| "js_add NInf _ = NInf"
| "js_add _ NInf = NInf"
| "js_add (Fin x) (Fin y) = rd (x + y)"

fun js_mul :: "jsnum \<Rightarrow> jsnum \<Rightarrow> jsnum" where
  "js_mul NaN _ = NaN"
| "js_mul _ NaN = NaN"
| "js_mul (Fin x) (Fin y) = rd (x * y)"
| "js_mul (Fin x) PInf = (if x = 0 then NaN else if 0 < x then PInf else NInf)"
| "js_mul (Fin x) NInf = (if x = 0 then NaN else if 0 < x then NInf else PInf)"
| "js_mul PInf (Fin y) = (if y = 0 then NaN else if 0 < y then PInf else NInf)"
| "js_mul NInf (Fin y) = (if y = 0 then NaN else if 0 < y then NInf else PInf)"
| "js_mul PInf PInf = PInf"
| "js_mul PInf NInf = NInf"
| "js_mul NInf PInf = NInf"
| "js_mul NInf NInf = PInf"

text \<open>\<^verbatim>\<open>x / 100\<close>: division by the positive literal of the source.\<close>

fun js_div100 :: "jsnum \<Rightarrow> jsnum" where
  "js_div100 (Fin x) = rd (x / 100)"
| "js_div100 v = v"

text \<open>
  \<^verbatim>\<open>Math.round\<close>: the integer nearest to the argument, a tie going towards \<open>+\<infinity>\<close>.
  On a binary64 argument the result \<open>\<lfloor>x + 1/2\<rfloor>\<close> is itself a binary64 value.
\<close>

fun Math_round :: "jsnum \<Rightarrow> jsnum" where
  "Math_round (Fin x) = Fin (of_int \<lfloor>x + 1 / 2\<rfloor>)"
| "Math_round v = v"

section \<open>Tables and request bodies\<close>

text \<open>
  The Sequelize models.  A table is a finite map from the primary key \<^verbatim>\<open>id\<close> to the
  remaining columns.
\<close>

record user =
  user_name :: string
  email :: string
  password :: string

record product =
  product_name :: string
  description :: string
  price :: jsnum
  categoryId :: int

text \<open>
  A line item of the JSON array \<^verbatim>\<open>products\<close>.  \<open>quantity = None\<close> is an item without
  a \<^verbatim>\<open>quantity\<close> key, which JavaScript reads as \<^verbatim>\<open>undefined\<close>.  Quantities that are
  JSON strings, booleans, \<^verbatim>\<open>null\<close>, arrays or objects, product ids that are not
  integers, and array elements that are not JSON objects are outside the model.
\<close>

record item =
  productId :: int
  quantity :: "jsnum option"

record order =
  userId :: int
  products :: "item list"
  total :: jsnum

text \<open>
  The database: the three tables the order endpoints touch, and the counter from which
  the \<^verbatim>\<open>autoIncrement\<close> key of the next order is taken.  Storage does not fail in the
  model, so the \<^verbatim>\<open>catch\<close> branch of a handler (status 500) has no counterpart; a
  \<^verbatim>\<open>total\<close> that is \<^verbatim>\<open>NaN\<close> or infinite is stored like any other.
\<close>

record db =
  User_tbl :: "int \<rightharpoonup> user"
  Product_tbl :: "int \<rightharpoonup> product"
  Order_tbl :: "int \<rightharpoonup> order"
  next_order_id :: int

text \<open>
  \<^verbatim>\<open>req.body\<close> of the two order endpoints.  \<open>None\<close> stands for an absent key; for
  \<^verbatim>\<open>products\<close> it also stands for a value that is not an array.  A \<^verbatim>\<open>userId\<close> is
  an integer; the only falsy one is \<open>0\<close>.  The handlers read
  \<^verbatim>\<open>userId\<close> and \<^verbatim>\<open>products\<close> only; \<open>body_total\<close> is a \<^verbatim>\<open>total\<close> key sent by
  the caller.
\<close>

record order_body =
  body_userId :: "int option"
  body_products :: "item list option"
  body_total :: "jsnum option"

datatype error_json =
    Required_fields            \<comment> \<open>\<^verbatim>\<open>userId and products array are required\<close>\<close>
  | User_does_not_exist        \<comment> \<open>\<^verbatim>\<open>User does not exist\<close>\<close>
  | Product_does_not_exist int \<comment> \<open>\<^verbatim>\<open>Product with id ${item.productId} does not exist\<close>\<close>
  | Order_not_found            \<comment> \<open>\<^verbatim>\<open>Order not found\<close>\<close>

text \<open>A reply is the status code with its JSON body: an error or an order with its id.\<close>

datatype response = Error_reply nat error_json | Order_reply nat int order

section \<open>The order endpoints\<close>

text \<open>\<^verbatim>\<open>ToNumber\<close> of the operand \<^verbatim>\<open>item.quantity\<close> of the multiplication.\<close>

fun to_number :: "jsnum option \<Rightarrow> jsnum" where
  "to_number None = NaN"
| "to_number (Some v) = v"

text \<open>The loop of \<^verbatim>\<open>calculateOrderTotal\<close>, with the running \<^verbatim>\<open>total\<close>.\<close>

fun total_loop :: "(int \<rightharpoonup> product) \<Rightarrow> item list \<Rightarrow> jsnum \<Rightarrow> jsnum" where
  "total_loop tbl [] tot = tot"
| "total_loop tbl (it # rest) tot =
     (case tbl (productId it) of
        Some p \<Rightarrow> total_loop tbl rest (js_add tot (js_mul (price p) (to_number (quantity it))))
      | None \<Rightarrow> total_loop tbl rest tot)"

definition calculateOrderTotal :: "(int \<rightharpoonup> product) \<Rightarrow> item list \<Rightarrow> jsnum" where
  "calculateOrderTotal tbl orderProducts =
     js_div100 (Math_round (js_mul (total_loop tbl orderProducts (Fin 0)) (Fin 100)))"

text \<open>
  The loop \<^verbatim>\<open>for (const item of orderProducts)\<close> of both handlers that looks every
  product up: the id of the first item whose product is missing, if there is one.
\<close>

fun check_products :: "(int \<rightharpoonup> product) \<Rightarrow> item list \<Rightarrow> int option" where
  "check_products tbl [] = None"
| "check_products tbl (it # rest) =
     (case tbl (productId it) of
        None \<Rightarrow> Some (productId it)
      | Some p \<Rightarrow> check_products tbl rest)"

text \<open>\<^verbatim>\<open>Order.create\<close>: the row is stored under a fresh key.\<close>

definition Order_create :: "order \<Rightarrow> db \<Rightarrow> int \<times> db" where
  "Order_create ord d =
     (next_order_id d,
      d\<lparr>Order_tbl := (Order_tbl d)(next_order_id d \<mapsto> ord),
        next_order_id := next_order_id d + 1\<rparr>)"

text \<open>\<^verbatim>\<open>order.save()\<close>: the row of the loaded order is overwritten.\<close>

definition Order_save :: "int \<Rightarrow> order \<Rightarrow> db \<Rightarrow> db" where
  "Order_save oid ord d = d\<lparr>Order_tbl := (Order_tbl d)(oid \<mapsto> ord)\<rparr>"

text \<open>Truthiness of a \<^verbatim>\<open>userId\<close>: absent and \<open>0\<close> are falsy.\<close>

fun truthy :: "int option \<Rightarrow> bool" where
  "truthy None = False"
| "truthy (Some n) = (n \<noteq> 0)"

text \<open>\<^verbatim>\<open>POST /orders\<close>\<close>

definition createOrder :: "order_body \<Rightarrow> db \<Rightarrow> response \<times> db" where
  "createOrder body d =
     (case (body_userId body, body_products body) of
        (Some uid, Some orderProducts) \<Rightarrow>
          if \<not> truthy (Some uid) then (Error_reply 400 Required_fields, d)
          else (case User_tbl d uid of
                  None \<Rightarrow> (Error_reply 400 User_does_not_exist, d)
                | Some u \<Rightarrow>
                    (case check_products (Product_tbl d) orderProducts of
                       Some pid \<Rightarrow> (Error_reply 400 (Product_does_not_exist pid), d)
                     | None \<Rightarrow>
                         let tot = calculateOrderTotal (Product_tbl d) orderProducts;
                             ord = \<lparr>userId = uid, products = orderProducts, total = tot\<rparr>;
                             (oid, d') = Order_create ord d
                         in (Order_reply 201 oid ord, d')))
      | _ \<Rightarrow> (Error_reply 400 Required_fields, d))"

text \<open>
  \<^verbatim>\<open>PUT /orders/:id\<close>.  The loaded \<^verbatim>\<open>order\<close> object is changed in memory first
  (\<open>ord1\<close>, \<open>ord2\<close>); the table changes at \<^verbatim>\<open>order.save()\<close> only.
\<close>

definition updateOrder :: "int \<Rightarrow> order_body \<Rightarrow> db \<Rightarrow> response \<times> db" where
  "updateOrder oid body d =
     (case Order_tbl d oid of
        None \<Rightarrow> (Error_reply 404 Order_not_found, d)
      | Some ord \<Rightarrow>
          (case (case body_userId body of
                   Some uid \<Rightarrow>
                     if truthy (Some uid)
                     then (case User_tbl d uid of
                             None \<Rightarrow> None
                           | Some u \<Rightarrow> Some (ord\<lparr>userId := uid\<rparr>))
                     else Some ord
                 | None \<Rightarrow> Some ord) of
             None \<Rightarrow> (Error_reply 400 User_does_not_exist, d)
           | Some ord1 \<Rightarrow>
               (case body_products body of
                  Some orderProducts \<Rightarrow>
                    (case check_products (Product_tbl d) orderProducts of
                       Some pid \<Rightarrow> (Error_reply 400 (Product_does_not_exist pid), d)
                     | None \<Rightarrow>
                         let ord2 = ord1\<lparr>products := orderProducts,
                                         total := calculateOrderTotal (Product_tbl d) orderProducts\<rparr>
                         in (Order_reply 200 oid ord2, Order_save oid ord2 d))
                | None \<Rightarrow> (Order_reply 200 oid ord1, Order_save oid ord1 d))))"

section \<open>Reference quantities\<close>

text \<open>
  The amount of one line, written out on its own: the binary64 product of the price of
  the product and the quantity of the line.  A line without a quantity has the amount
  \<^verbatim>\<open>NaN\<close>, as a price times \<^verbatim>\<open>undefined\<close> has.  It is used for lines whose
  product exists.
\<close>

definition line_amount :: "(int \<rightharpoonup> product) \<Rightarrow> item \<Rightarrow> jsnum" where
  "line_amount tbl it =
     (case tbl (productId it) of
        Some p \<Rightarrow> (case quantity it of Some q \<Rightarrow> js_mul (price p) q | None \<Rightarrow> NaN)
      | None \<Rightarrow> NaN)"


fun value_of :: "jsnum \<Rightarrow> rat" where
  "value_of (Fin x) = x"
| "value_of v = 0"

definition exact_amount :: "(int \<rightharpoonup> product) \<Rightarrow> item \<Rightarrow> rat" where
  "exact_amount tbl it =
     (case tbl (productId it) of
        Some p \<Rightarrow> value_of (price p) * value_of (to_number (quantity it))
      | None \<Rightarrow> 0)"


text \<open>Lines whose product exists and whose price and quantity are whole numbers.\<close>

fun int_valued :: "jsnum \<Rightarrow> bool" where
  "int_valued (Fin x) = (of_int \<lfloor>x\<rfloor> = x)"
| "int_valued v = False"

definition int_line :: "(int \<rightharpoonup> product) \<Rightarrow> item \<Rightarrow> bool" where
  "int_line tbl it =
     (case tbl (productId it) of
        Some p \<Rightarrow> int_valued (price p) \<and> int_valued (to_number (quantity it))
      | None \<Rightarrow> False)"

section \<open>Example data\<close>

text \<open>
  A small database on which the theorems below are instantiated: two users, four
  products and one stored order.  All prices are binary64 values.
\<close>

definition alice :: user where
  "alice = \<lparr>user_name = ''Alice'', email = ''alice@example.com'', password = ''secret''\<rparr>"

definition bob :: user where
  "bob = \<lparr>user_name = ''Bob'', email = ''bob@example.com'', password = ''hunter2''\<rparr>"

definition widget :: product where
  "widget = \<lparr>product_name = ''Widget'', description = ''A widget'', price = Fin 5,
              categoryId = 1\<rparr>"

definition sweet :: product where
  "sweet = \<lparr>product_name = ''Sweet'', description = ''Sold by the piece'',
             price = Fin (1 / 8), categoryId = 1\<rparr>"

definition estate :: product where
  "estate = \<lparr>product_name = ''Estate'', description = ''Priced at 1e16'',
              price = Fin 10000000000000000, categoryId = 1\<rparr>"

definition token :: product where
  "token = \<lparr>product_name = ''Token'', description = ''Priced at 1'', price = Fin 1,
             categoryId = 1\<rparr>"

text \<open>Shorthand for a line with a numeric quantity and for a request body.\<close>

abbreviation line :: "int \<Rightarrow> rat \<Rightarrow> item" where
  "line pid q \<equiv> \<lparr>productId = pid, quantity = Some (Fin q)\<rparr>"

abbreviation request :: "int option \<Rightarrow> item list option \<Rightarrow> order_body" where
  "request uid items \<equiv> \<lparr>body_userId = uid, body_products = items, body_total = None\<rparr>"

definition shop :: db where
  "shop = \<lparr>User_tbl = [1 \<mapsto> alice, 2 \<mapsto> bob],
            Product_tbl = [1 \<mapsto> widget, 2 \<mapsto> sweet, 3 \<mapsto> estate, 4 \<mapsto> token],
            Order_tbl = [7 \<mapsto> \<lparr>userId = 1, products = [line 1 1], total = Fin 5\<rparr>],
            next_order_id = 8\<rparr>"

section \<open>Evaluation of closed terms\<close>

lemma floor_rat_numeral_div:
  "\<lfloor>numeral a / numeral b :: rat\<rfloor> = numeral a div numeral b"
  "\<lfloor>- (numeral a / numeral b) :: rat\<rfloor> = - numeral a div numeral b"
  "\<lfloor>1 / numeral b :: rat\<rfloor> = 1 div numeral b"
  "\<lfloor>- (1 / numeral b) :: rat\<rfloor> = - 1 div numeral b"
  using floor_divide_of_int_eq [of "numeral a" "numeral b", where ?'a = rat]
    floor_divide_of_int_eq [of "- numeral a" "numeral b", where ?'a = rat]
    floor_divide_of_int_eq [of 1 "numeral b", where ?'a = rat]
    floor_divide_of_int_eq [of "- 1" "numeral b", where ?'a = rat]
  by simp_all

lemma ceiling_rat_numeral_div:
  "\<lceil>numeral a / numeral b :: rat\<rceil> = - (- numeral a div numeral b)"
  using ceiling_divide_eq_div [of "numeral a" "numeral b", where ?'a = rat] by simp

lemma bitlen_numeral:
  "bitlen 0 = 0" "bitlen 1 = 1" "bitlen (numeral k) = 1 + bitlen (numeral k div 2)"
  by (simp_all add: bitlen.simps [of 0] bitlen.simps [of 1] bitlen.simps [of "numeral k"])

lemmas rd_eval = rd_def flog2_def pow2_def round_half_even_def Let_def
  floor_rat_numeral_div ceiling_rat_numeral_div bitlen_numeral

lemmas shop_defs = shop_def alice_def bob_def widget_def sweet_def estate_def token_def

text \<open>The prices of the example, and the total \<open>-0.12\<close> met below, are binary64 values.\<close>

lemma is_double_examples:
  "is_double 5" "is_double (1 / 8)" "is_double 10000000000000000" "is_double 1"
  "is_double (- 1080863910568919 / 9007199254740992)"
  by (simp_all add: is_double_def rd_eval)

section \<open>Facts about rounding\<close>

lemma bitlen_bounds:
  "0 < n \<Longrightarrow> 0 < bitlen n \<and> 2 ^ nat (bitlen n - 1) \<le> n \<and> n < 2 ^ nat (bitlen n)"
proof (induction n rule: bitlen.induct)
  case (1 n)
  show ?case
  proof (cases "n = 1")
    case True
    then show ?thesis
      by (simp add: bitlen.simps [of 1] bitlen.simps [of 0])
  next
    case False
    with "1.prems" have half: "0 < n div 2" by simp
    from "1.prems" have pos: "\<not> n \<le> 0" by simp
    from "1.IH" [OF pos half]
    have ih: "0 < bitlen (n div 2)" "2 ^ nat (bitlen (n div 2) - 1) \<le> n div 2"
      "n div 2 < 2 ^ nat (bitlen (n div 2))"
      by simp_all
    have unf: "bitlen n = 1 + bitlen (n div 2)"
      using pos by (simp add: bitlen.simps [of n])
    define k where "k = nat (bitlen (n div 2) - 1)"
    have k: "nat (bitlen (n div 2)) = Suc k"
      using ih(1) by (simp add: k_def)
    have "2 * 2 ^ k \<le> n"
      using ih(2) unfolding k_def [symmetric] by linarith
    moreover have "n < 2 * 2 ^ Suc k"
      using ih(3) unfolding k by linarith
    ultimately show ?thesis
      using ih(1) by (simp add: unf k nat_add_distrib)
  qed
qed

lemma pow2_nonneg: "0 \<le> k \<Longrightarrow> pow2 k = 2 ^ nat k"
  by (simp add: pow2_def)

lemma pow2_neg: "0 \<le> k \<Longrightarrow> pow2 (- k) = 1 / 2 ^ nat k"
  by (cases "k = 0") (simp_all add: pow2_def)

text \<open>\<open>flog2\<close> is the binary exponent of a positive rational.\<close>

lemma flog2_bounds:
  assumes "0 < x"
  shows "pow2 (flog2 x) \<le> x \<and> x < pow2 (flog2 x + 1)"
proof (cases "1 \<le> x")
  case True
  define n where "n = \<lfloor>x\<rfloor>"
  define L where "L = bitlen n - 1"
  from True have n_pos: "0 < n" by (simp add: n_def)
  from bitlen_bounds [OF n_pos]
  have L0: "0 \<le> L" and lo: "2 ^ nat L \<le> n" and hi: "n < 2 ^ nat (L + 1)"
    by (simp_all add: L_def)
  have fl: "flog2 x = L"
    using True by (simp add: flog2_def L_def n_def)
  have "(of_int (2 ^ nat L) :: rat) \<le> of_int n"
    using lo by (simp only: of_int_le_iff)
  also have "of_int n \<le> x"
    by (simp add: n_def)
  finally have low: "pow2 L \<le> x"
    using L0 by (simp add: pow2_nonneg)
  from hi have "n + 1 \<le> 2 ^ nat (L + 1)" by simp
  then have "(of_int (n + 1) :: rat) \<le> of_int (2 ^ nat (L + 1))"
    by (simp only: of_int_le_iff)
  moreover have "x < of_int (n + 1)"
    by (simp add: n_def) linarith
  ultimately have "x < pow2 (L + 1)"
    using L0 by (simp add: pow2_nonneg)
  with low fl show ?thesis by simp
next
  case False
  define m where "m = \<lceil>1 / x\<rceil> - 1"
  define k where "k = bitlen m"
  from False assms have "1 < 1 / x" by simp
  then have m_pos: "0 < m"
    by (simp add: m_def less_ceiling_iff)
  from bitlen_bounds [OF m_pos]
  have k0: "0 < k" and lo: "2 ^ nat (k - 1) \<le> m" and hi: "m < 2 ^ nat k"
    by (simp_all add: k_def)
  have fl: "flog2 x = - k"
    using False by (simp add: flog2_def k_def m_def)
  from hi have "m + 1 \<le> 2 ^ nat k" by simp
  then have "(of_int (m + 1) :: rat) \<le> of_int (2 ^ nat k)"
    by (simp only: of_int_le_iff)
  moreover have "1 / x \<le> of_int (m + 1)"
    by (simp add: m_def del: ceiling_divide_eq_div)
  ultimately have "1 / x \<le> 2 ^ nat k" by simp
  then have "1 \<le> 2 ^ nat k * x"
    using assms by (simp add: field_simps)
  then have low: "pow2 (- k) \<le> x"
    using k0 by (simp add: pow2_neg field_simps)
  have "(2::rat) ^ nat (k - 1) = of_int (2 ^ nat (k - 1))"
    by simp
  also have "\<dots> \<le> of_int m"
    using lo by (simp only: of_int_le_iff)
  also have "of_int m < 1 / x"
    by (simp add: m_def) linarith
  finally have "2 ^ nat (k - 1) < 1 / x" .
  then have "x * 2 ^ nat (k - 1) < 1"
    using assms by (simp add: field_simps)
  then have "x < 1 / 2 ^ nat (k - 1)"
    by (simp add: pos_less_divide_eq)
  also have "1 / 2 ^ nat (k - 1) = pow2 (- (k - 1))"
    using k0 by (intro pow2_neg [symmetric]) simp
  finally have "x < pow2 (- k + 1)"
    by simp
  with low fl show ?thesis by simp
qed

lemma round_half_even_of_int: "round_half_even (of_int m) = m"
  by (simp add: round_half_even_def)

text \<open>Whole numbers up to \<open>2^53\<close> in magnitude are binary64 values: rounding keeps them.\<close>

lemma rd_of_int:
  assumes "\<bar>n\<bar> \<le> 2 ^ 53"
  shows "rd (of_int n) = Fin (of_int n)"
proof (cases "n = 0")
  case True
  then show ?thesis by (simp add: rd_def)
next
  case False
  define a where "a = \<bar>n\<bar>"
  define L where "L = bitlen a - 1"
  from False have a_pos: "0 < a" by (simp add: a_def)
  from assms have a_le: "a \<le> 2 ^ 53" by (simp add: a_def)
  from bitlen_bounds [OF a_pos]
  have L0: "0 \<le> L" and lo: "2 ^ nat L \<le> a" and hi: "a < 2 ^ nat (L + 1)"
    by (simp_all add: L_def)
  have abs_eq: "\<bar>of_int n :: rat\<bar> = of_int a"
    by (simp add: a_def)
  have one_le: "(1::rat) \<le> of_int a"
    using a_pos by simp
  have fl: "flog2 (of_int a) = L"
    using one_le by (simp add: flog2_def L_def)
  have "(2::int) ^ nat L \<le> 2 ^ 53"
    using lo a_le by linarith
  then have "nat L \<le> 53"
    by (rule power_le_imp_le_exp [rotated]) simp
  with L0 have L53: "L \<le> 53" by linarith
  have e: "max (L - 52) (- 1074) = L - 52"
    using L0 by simp
  have y: "of_int (round_half_even (of_int a / pow2 (L - 52))) * pow2 (L - 52) = (of_int a :: rat)"
  proof (cases "L \<le> 52")
    case True
    define k where "k = nat (52 - L)"
    have p: "pow2 (L - 52) = 1 / 2 ^ k"
    proof (cases "L = 52")
      case True
      then show ?thesis by (simp add: pow2_def k_def)
    next
      case False
      with \<open>L \<le> 52\<close> have "\<not> 0 \<le> L - 52" by simp
      then show ?thesis by (simp add: pow2_def k_def)
    qed
    have "(of_int a :: rat) / pow2 (L - 52) = of_int (a * 2 ^ k)"
      by (simp add: p)
    then have "round_half_even (of_int a / pow2 (L - 52)) = a * 2 ^ k"
      by (simp only: round_half_even_of_int)
    then show ?thesis
      by (simp add: p)
  next
    case False
    with L53 have L: "L = 53" by simp
    with lo have "2 ^ 53 \<le> a" by simp
    with a_le have a: "a = 2 ^ 53" by simp
    have p: "pow2 (L - 52) = 2"
      by (simp add: L pow2_def)
    have "(of_int a :: rat) / pow2 (L - 52) = of_int (2 ^ 52)"
      by (simp add: p a)
    then have "round_half_even (of_int a / pow2 (L - 52)) = 2 ^ 52"
      by (simp only: round_half_even_of_int)
    then show ?thesis
      by (simp add: p a)
  qed
  have "(of_int a :: rat) \<le> 2 ^ 53"
    using a_le by (metis of_int_le_iff of_int_numeral of_int_power)
  also have "(2::rat) ^ 53 < pow2 1024"
    by (simp add: pow2_def)
  finally have small: "\<not> pow2 1024 \<le> (of_int a :: rat)"
    by simp
  have "rd (of_int n) = Fin (if 0 < (of_int n :: rat) then of_int a else - of_int a)"
    using False small by (simp add: rd_def Let_def abs_eq fl e y del: of_int_abs)
  also have "(if 0 < (of_int n :: rat) then of_int a else - of_int a) = (of_int n :: rat)"
    by (simp add: a_def)
  finally show ?thesis .
qed


section \<open>Facts about the product check and the sum\<close>

lemma check_products_None:
  "check_products tbl items = None \<longleftrightarrow> (\<forall>it \<in> set items. tbl (productId it) \<noteq> None)"
  by (induction items) (auto split: option.splits)

lemma check_products_Some:
  "check_products tbl items = Some pid \<Longrightarrow> pid \<in> productId ` set items \<and> tbl pid = None"
  by (induction items) (auto split: option.splits)

text \<open>The product named in the reply is the first one of the list that is missing.\<close>

lemma check_products_first:
  "check_products tbl items = Some pid \<Longrightarrow>
     \<exists>pre it post. items = pre @ it # post \<and> productId it = pid \<and> tbl pid = None
        \<and> (\<forall>j \<in> set pre. tbl (productId j) \<noteq> None)"
proof (induction items)
  case Nil
  then show ?case by simp
next
  case (Cons a items)
  show ?case
  proof (cases "tbl (productId a)")
    case None
    with Cons.prems have "pid = productId a" by simp
    with None have "a # items = [] @ a # items \<and> productId a = pid \<and> tbl pid = None
        \<and> (\<forall>j \<in> set []. tbl (productId j) \<noteq> None)" by simp
    then show ?thesis by blast
  next
    case (Some p)
    with Cons.prems have "check_products tbl items = Some pid" by simp
    from Cons.IH [OF this] obtain pre it post where
      "items = pre @ it # post" "productId it = pid" "tbl pid = None"
      "\<forall>j \<in> set pre. tbl (productId j) \<noteq> None" by blast
    with Some have "a # items = (a # pre) @ it # post \<and> productId it = pid \<and> tbl pid = None
        \<and> (\<forall>j \<in> set (a # pre). tbl (productId j) \<noteq> None)" by simp
    then show ?thesis by blast
  qed
qed

lemma js_mul_NaN: "js_mul x NaN = NaN"
  by (cases x) simp_all

text \<open>
  The loop multiplies the price by \<^verbatim>\<open>ToNumber\<close> of the quantity, line by line; this
  is the amount of the line.
\<close>

lemma loop_step_amount:
  "js_mul x (to_number q) = (case q of Some v \<Rightarrow> js_mul x v | None \<Rightarrow> NaN)"
  by (cases q) (simp_all add: js_mul_NaN)

lemma total_loop_foldl:
  "\<forall>it \<in> set items. tbl (productId it) \<noteq> None \<Longrightarrow>
   total_loop tbl items tot = foldl js_add tot (map (line_amount tbl) items)"
  by (induction items arbitrary: tot) (auto simp: line_amount_def loop_step_amount)

text \<open>
  Called on its own, \<^verbatim>\<open>calculateOrderTotal\<close> passes over a line whose product is
  missing; both handlers reject such a list before they call it.
\<close>

lemma total_loop_skips_missing:
  "tbl (productId it) = None \<Longrightarrow> total_loop tbl (it # rest) tot = total_loop tbl rest tot"
  by simp

lemma calculateOrderTotal_Nil: "calculateOrderTotal tbl [] = Fin 0"
  by (simp add: calculateOrderTotal_def rd_def floor_rat_numeral_div)

lemma int_valued_cases:
  "int_valued v \<Longrightarrow> \<exists>n. v = Fin (of_int n)"
  by (cases v) (auto intro: exI [of _ "\<lfloor>_\<rfloor>"])

lemma int_line_amount:
  assumes "int_line tbl it" and "\<bar>exact_amount tbl it\<bar> \<le> 2 ^ 53"
  shows "\<exists>n. exact_amount tbl it = of_int n \<and> line_amount tbl it = Fin (of_int n)"
proof -
  from assms(1) obtain p where p: "tbl (productId it) = Some p"
    and "int_valued (price p)" and "int_valued (to_number (quantity it))"
    by (auto simp: int_line_def split: option.splits)
  then obtain a b where a: "price p = Fin (of_int a)" and b: "to_number (quantity it) = Fin (of_int b)"
    using int_valued_cases by blast
  have ex: "exact_amount tbl it = of_int (a * b)"
    by (simp add: exact_amount_def p a b)
  with assms(2) have "\<bar>(of_int (a * b) :: rat)\<bar> \<le> 2 ^ 53" by simp
  then have "\<bar>a * b\<bar> \<le> 2 ^ 53"
    by (metis of_int_abs of_int_le_iff of_int_numeral of_int_power)
  then have "rd (of_int (a * b)) = Fin (of_int (a * b))"
    by (rule rd_of_int)
  then have "js_mul (price p) (to_number (quantity it)) = Fin (of_int (a * b))"
    by (simp add: a b)
  moreover have "line_amount tbl it = js_mul (price p) (to_number (quantity it))"
    by (simp add: line_amount_def p loop_step_amount)
  ultimately have "line_amount tbl it = Fin (of_int (a * b))"
    by simp
  with ex show ?thesis by blast
qed

text \<open>On whole numbers within \<open>2^53\<close> the running total is the exact sum.\<close>

lemma int_sum_exact:
  assumes "\<forall>it \<in> set items. int_line tbl it"
    and "\<bar>of_int acc\<bar> + sum_list (map (\<lambda>it. \<bar>exact_amount tbl it\<bar>) items) \<le> 2 ^ 53"
  shows "foldl js_add (Fin (of_int acc)) (map (line_amount tbl) items)
           = Fin (of_int acc + sum_list (map (exact_amount tbl) items))"
  using assms
proof (induction items arbitrary: acc)
  case Nil
  then show ?case by simp
next
  case (Cons it items)
  have nonneg: "0 \<le> sum_list (map (\<lambda>it. \<bar>exact_amount tbl it\<bar>) items)"
    by (rule sum_list_nonneg) auto
  from Cons.prems(2) nonneg have small: "\<bar>exact_amount tbl it\<bar> \<le> 2 ^ 53"
    by simp
  from Cons.prems(1) have "int_line tbl it" by simp
  from int_line_amount [OF this small] obtain n where
    n: "exact_amount tbl it = of_int n" "line_amount tbl it = Fin (of_int n)"
    by blast
  have "\<bar>(of_int (acc + n) :: rat)\<bar> \<le> \<bar>of_int acc\<bar> + \<bar>exact_amount tbl it\<bar>"
    by (simp add: n)
  also have "\<dots> \<le> 2 ^ 53"
    using Cons.prems(2) nonneg by simp
  finally have "\<bar>(of_int (acc + n) :: rat)\<bar> \<le> 2 ^ 53" .
  then have "\<bar>acc + n\<bar> \<le> 2 ^ 53"
    by (metis of_int_abs of_int_le_iff of_int_numeral of_int_power)
  then have step: "js_add (Fin (of_int acc)) (line_amount tbl it) = Fin (of_int (acc + n))"
    using rd_of_int [of "acc + n"] by (simp add: n)
  have "\<bar>(of_int (acc + n) :: rat)\<bar> + sum_list (map (\<lambda>it. \<bar>exact_amount tbl it\<bar>) items)
          \<le> \<bar>of_int acc\<bar> + sum_list (map (\<lambda>it. \<bar>exact_amount tbl it\<bar>) (it # items))"
    by (simp add: n)
  with Cons.prems(2)
  have "\<bar>(of_int (acc + n) :: rat)\<bar> + sum_list (map (\<lambda>it. \<bar>exact_amount tbl it\<bar>) items) \<le> 2 ^ 53"
    by linarith
  with Cons.IH [of "acc + n"] Cons.prems(1)
  have rest: "foldl js_add (Fin (of_int (acc + n))) (map (line_amount tbl) items)
          = Fin (of_int (acc + n) + sum_list (map (exact_amount tbl) items))"
    by simp
  have "foldl js_add (Fin (of_int acc)) (map (line_amount tbl) (it # items))
          = foldl js_add (Fin (of_int (acc + n))) (map (line_amount tbl) items)"
    by (simp only: list.map foldl_Cons step)
  also note rest
  also have "of_int (acc + n) + sum_list (map (exact_amount tbl) items)
          = of_int acc + sum_list (map (exact_amount tbl) (it # items))"
    by (simp add: n)
  finally show ?case .
qed

lemma int_lines_resolve:
  "\<forall>it \<in> set items. int_line tbl it \<Longrightarrow> \<forall>it \<in> set items. tbl (productId it) \<noteq> None"
  by (auto simp: int_line_def split: option.splits)

lemma int_total:
  assumes "\<forall>it \<in> set items. int_line tbl it"
    and "sum_list (map (\<lambda>it. \<bar>exact_amount tbl it\<bar>) items) \<le> 2 ^ 53"
  shows "calculateOrderTotal tbl items =
           js_div100 (Math_round (js_mul (Fin (sum_list (map (exact_amount tbl) items))) (Fin 100)))"
  using int_sum_exact [of items tbl 0] assms
  by (simp add: calculateOrderTotal_def total_loop_foldl int_lines_resolve)

section \<open>C1: the stored total\<close>




section \<open>C2: a line whose product is missing\<close>

text \<open>
  Claim C2.  When the \<^verbatim>\<open>products\<close> array has a line whose \<^verbatim>\<open>productId\<close> names no
  product, the caller of the pricing function fails: \<^verbatim>\<open>POST /orders\<close> (the user being
  valid) and \<^verbatim>\<open>PUT /orders/:id\<close> (the order existing and the \<^verbatim>\<open>userId\<close>, if given,
  being valid) reply with status 400 and \<^verbatim>\<open>Product with id ... does not exist\<close>, naming
  a product id of the list that does not resolve; no order and no total is returned and
  nothing is stored.
\<close>

theorem missing_product_rejected:
  assumes "body_products body = Some items"
    and "it \<in> set items" and "Product_tbl d (productId it) = None"
  shows "(body_userId body = Some uid \<and> uid \<noteq> 0 \<and> User_tbl d uid \<noteq> None \<longrightarrow>
            (\<exists>pid. createOrder body d = (Error_reply 400 (Product_does_not_exist pid), d)
               \<and> pid \<in> productId ` set items \<and> Product_tbl d pid = None)) \<and>
         (Order_tbl d oid \<noteq> None \<and>
            (\<forall>u. body_userId body = Some u \<and> u \<noteq> 0 \<longrightarrow> User_tbl d u \<noteq> None) \<longrightarrow>
            (\<exists>pid. updateOrder oid body d = (Error_reply 400 (Product_does_not_exist pid), d)
               \<and> pid \<in> productId ` set items \<and> Product_tbl d pid = None))"
proof -
  from assms(2,3) have "check_products (Product_tbl d) items \<noteq> None"
    by (auto simp: check_products_None)
  then obtain pid where pid: "check_products (Product_tbl d) items = Some pid"
    by blast
  from check_products_Some [OF pid]
  have mem: "pid \<in> productId ` set items" and gone: "Product_tbl d pid = None"
    by simp_all
  have "createOrder body d = (Error_reply 400 (Product_does_not_exist pid), d)"
    if "body_userId body = Some uid" "uid \<noteq> 0" "User_tbl d uid \<noteq> None"
    using that assms(1) pid by (auto simp: createOrder_def)
  moreover have "updateOrder oid body d = (Error_reply 400 (Product_does_not_exist pid), d)"
    if "Order_tbl d oid \<noteq> None"
      "\<forall>u. body_userId body = Some u \<and> u \<noteq> 0 \<longrightarrow> User_tbl d u \<noteq> None"
    using that assms(1) pid by (auto simp: updateOrder_def split: option.splits)
  ultimately show ?thesis
    using mem gone by blast
qed

theorem missing_product_rejected_witness:
  "createOrder (request (Some 1) (Some [line 1 2, line 999 1])) shop
     = (Error_reply 400 (Product_does_not_exist 999), shop) \<and>
   updateOrder 7 (request (Some 1) (Some [line 1 2, line 999 1])) shop
     = (Error_reply 400 (Product_does_not_exist 999), shop)"
  using missing_product_rejected
    [of "request (Some 1) (Some [line 1 2, line 999 1])"
        "[line 1 2, line 999 1]"
        "line 999 1" shop 1 7]
  by (simp add: shop_def createOrder_def updateOrder_def)

section \<open>C3: quantities are not checked\<close>




section \<open>C4: a failed request writes nothing\<close>

text \<open>
  Claim C4.  When \<^verbatim>\<open>POST /orders\<close> or \<^verbatim>\<open>PUT /orders/:id\<close> replies with an error (in
  particular \<^verbatim>\<open>User does not exist\<close> or \<^verbatim>\<open>Product with id ... does not exist\<close>), the
  database after the call is the database before it.  On update this holds also when
  the \<^verbatim>\<open>userId\<close> of the body passed its check before a product failed: the assignment
  \<^verbatim>\<open>order.userId = userId\<close> changed the loaded object only.
\<close>

theorem invalid_reference_no_write:
  "(fst (createOrder body d) = Error_reply c e \<longrightarrow> snd (createOrder body d) = d) \<and>
   (fst (updateOrder oid body d) = Error_reply c e \<longrightarrow> snd (updateOrder oid body d) = d)"
  by (auto simp: createOrder_def updateOrder_def Order_create_def Let_def
      split: option.splits if_splits prod.splits)

theorem invalid_reference_no_write_witness:
  "updateOrder 7 (request (Some 2) (Some [line 999 1])) shop
     = (Error_reply 400 (Product_does_not_exist 999), shop) \<and>
   createOrder (request (Some 2) (Some [line 999 1])) shop
     = (Error_reply 400 (Product_does_not_exist 999), shop)"
  using invalid_reference_no_write
    [of "request (Some 2) (Some [line 999 1])"
        shop 400 "Product_does_not_exist 999" 7]
  by (simp add: shop_def updateOrder_def createOrder_def prod_eq_iff)

section \<open>C5: an update of the user alone\<close>

text \<open>
  Claim C5.  For every stored order, \<^verbatim>\<open>PUT /orders/:id\<close> with a body that has no
  \<^verbatim>\<open>products\<close> array leaves the \<^verbatim>\<open>products\<close> and the \<^verbatim>\<open>total\<close> of the stored
  order as they were, whatever the \<^verbatim>\<open>userId\<close> of the body is.
\<close>

theorem update_userId_only_keeps_products_total:
  assumes "Order_tbl d oid = Some ord" and "body_products body = None"
  shows "\<exists>ord'. Order_tbl (snd (updateOrder oid body d)) oid = Some ord'
           \<and> products ord' = products ord \<and> total ord' = total ord"
  using assms by (auto simp: updateOrder_def Order_save_def split: option.splits)

theorem update_userId_only_witness:
  "Order_tbl (snd (updateOrder 7 (request (Some 2) None) shop)) 7
     = Some \<lparr>userId = 2, products = [line 1 1], total = Fin 5\<rparr>"
  using update_userId_only_keeps_products_total
    [of shop 7 "\<lparr>userId = 1, products = [line 1 1], total = Fin 5\<rparr>"
        "request (Some 2) None"]
  by (simp add: shop_def updateOrder_def Order_save_def)

section \<open>C6: the total follows the products\<close>

text \<open>
  Claim C6.  A successful \<^verbatim>\<open>PUT /orders/:id\<close> stores the merged record under the id of
  the order and changes nothing else.  If the body has a \<^verbatim>\<open>products\<close> array, the stored
  lines are that array and the stored \<^verbatim>\<open>total\<close> is \<^verbatim>\<open>calculateOrderTotal\<close> of that
  array at the prices of the product table of the write; if it has none, the stored
  lines and the stored total are the old ones.  The \<^verbatim>\<open>userId\<close> is the one of the body
  when that is truthy and the old one otherwise.
\<close>

theorem update_recomputes_iff_products:
  assumes "Order_tbl d oid = Some ord"
    and "updateOrder oid body d = (Order_reply c i ord', d')"
  shows "d' = d\<lparr>Order_tbl := (Order_tbl d)(oid \<mapsto> ord')\<rparr> \<and> c = 200 \<and> i = oid \<and>
     (case body_products body of
        Some items \<Rightarrow>
          products ord' = items \<and> total ord' = calculateOrderTotal (Product_tbl d) items
      | None \<Rightarrow> products ord' = products ord \<and> total ord' = total ord) \<and>
     (case body_userId body of
        Some uid \<Rightarrow> userId ord' = (if uid \<noteq> 0 then uid else userId ord)
      | None \<Rightarrow> userId ord' = userId ord)"
  using assms
  by (auto simp: updateOrder_def Order_save_def Let_def split: option.splits if_splits)

theorem update_recomputes_witness:
  "updateOrder 7 (request None (Some [line 1 3])) shop
     = (Order_reply 200 7
          \<lparr>userId = 1, products = [line 1 3], total = Fin 15\<rparr>,
        shop\<lparr>Order_tbl := (Order_tbl shop)(7 \<mapsto> \<lparr>userId = 1, products =
        [line 1 3], total = Fin 15\<rparr>)\<rparr>) \<and>
   updateOrder 7 (request (Some 2) None) shop
     = (Order_reply 200 7
          \<lparr>userId = 2, products = [line 1 1], total = Fin 5\<rparr>,
        shop\<lparr>Order_tbl := (Order_tbl shop)(7 \<mapsto> \<lparr>userId = 2, products =
        [line 1 1], total = Fin 5\<rparr>)\<rparr>)"
  using update_recomputes_iff_products
    [of shop 7 "\<lparr>userId = 1, products = [line 1 1], total = Fin 5\<rparr>"
        "request None (Some [line 1 3])" 200 7
        "\<lparr>userId = 1, products = [line 1 3], total = Fin 15\<rparr>"
        "shop\<lparr>Order_tbl := (Order_tbl shop)(7 \<mapsto> \<lparr>userId = 1, products =
         [line 1 3], total = Fin 15\<rparr>)\<rparr>"]
    update_recomputes_iff_products
    [of shop 7 "\<lparr>userId = 1, products = [line 1 1], total = Fin 5\<rparr>"
        "request (Some 2) None" 200 7
        "\<lparr>userId = 2, products = [line 1 1], total = Fin 5\<rparr>"
        "shop\<lparr>Order_tbl := (Order_tbl shop)(7 \<mapsto> \<lparr>userId = 2, products =
         [line 1 1], total = Fin 5\<rparr>)\<rparr>"]
  by (simp add: shop_defs updateOrder_def Order_save_def calculateOrderTotal_def rd_eval)

section \<open>C7: one rounding, at the end\<close>

text \<open>
  Claim C7.  For every list of lines whose products all exist, \<^verbatim>\<open>calculateOrderTotal\<close>
  adds price times quantity line by line, from left to right, and rounds to two decimal
  places once, on the final sum: no line amount is rounded to two decimal places on its
  own.  (Three sweets and five sweets at \<open>0.125\<close> give \<open>0.375 + 0.625 = 1\<close>;
  rounded line by line they would give \<open>0.38 + 0.63 = 1.01\<close>.)
\<close>

theorem calculateOrderTotal_rounds_once:
  assumes "\<forall>it \<in> set items. tbl (productId it) \<noteq> None"
  shows "calculateOrderTotal tbl items =
     js_div100 (Math_round (js_mul (foldl js_add (Fin 0) (map (line_amount tbl) items)) (Fin 100)))"
proof -
  have "total_loop tbl items tot = foldl js_add tot (map (line_amount tbl) items)" for tot
    using assms
  proof (induction items arbitrary: tot)
    case Nil
    show ?case by simp
  next
    case (Cons it items)
    from Cons.prems obtain p where p: "tbl (productId it) = Some p"
      by auto
    have "js_mul (price p) (to_number (quantity it)) = line_amount tbl it"
      by (cases "quantity it") (simp_all add: line_amount_def p js_mul_NaN)
    with Cons p show ?case
      by simp
  qed
  then show ?thesis
    by (simp add: calculateOrderTotal_def)
qed

theorem calculateOrderTotal_rounds_once_witness:
  "Product_tbl shop 2 = Some sweet \<and>
   calculateOrderTotal (Product_tbl shop) [line 2 3, line 2 5] = Fin 1 \<and>
   map (line_amount (Product_tbl shop)) [line 2 3, line 2 5] = [Fin (3 / 8), Fin (5 / 8)] \<and>
   foldl js_add (Fin 0)
     (map (\<lambda>it. js_div100 (Math_round (js_mul (line_amount (Product_tbl shop) it) (Fin 100))))
        [line 2 3, line 2 5])
     = Fin (4548635623644201 / 4503599627370496)"
proof -
  have evaluated:
    "Product_tbl shop 2 = Some sweet \<and>
     calculateOrderTotal (Product_tbl shop) [line 2 3, line 2 5] = Fin 1 \<and>
     map (line_amount (Product_tbl shop)) [line 2 3, line 2 5] = [Fin (3 / 8), Fin (5 / 8)] \<and>
     foldl js_add (Fin 0)
       (map (\<lambda>it. js_div100 (Math_round (js_mul (line_amount (Product_tbl shop) it) (Fin 100))))
          [line 2 3, line 2 5])
       = Fin (4548635623644201 / 4503599627370496)"
    by (simp add: shop_defs calculateOrderTotal_def line_amount_def rd_eval)
  from calculateOrderTotal_rounds_once [of "[line 2 3, line 2 5]" "Product_tbl shop"]
  show ?thesis
    by - (rule evaluated)
qed

section \<open>C8: the order of the lines\<close>

text \<open>
  Claim C8 as stated: every permutation of a valid list of lines has the same total.  It
  fails: the sum is a binary64 sum, taken from left to right, and binary64 addition is
  not associative.  With one product priced \<open>10^16\<close> and one priced \<open>1\<close>, the list
  \<open>10^16, 1, 1\<close> totals \<open>10^16\<close> (each \<open>1\<close> is lost against \<open>10^16\<close>) and the
  list \<open>1, 1, 10^16\<close> totals \<open>10^16 + 2\<close>.
\<close>

theorem order_of_lines_changes_total:
  "mset [line 3 1, line 4 1, line 4 1]
   = mset [line 4 1, line 4 1, line 3 1] \<and>
   calculateOrderTotal (Product_tbl shop)
     [line 3 1, line 4 1, line 4 1]
     = Fin 10000000000000000 \<and>
   calculateOrderTotal (Product_tbl shop)
     [line 4 1, line 4 1, line 3 1]
     = Fin 10000000000000002 \<and>
   calculateOrderTotal (Product_tbl shop)
     [line 3 1, line 4 1, line 4 1]
     \<noteq> calculateOrderTotal (Product_tbl shop)
     [line 4 1, line 4 1, line 3 1]"
  by (simp add: shop_defs calculateOrderTotal_def rd_eval)

text \<open>
  Claim C8, amended.  For every list of lines whose products all exist, whose prices and
  quantities are whole numbers, and whose amounts price times quantity have absolute
  values that sum to at most \<open>2^53\<close> (every product and every partial sum is then exact
  in binary64), \<^verbatim>\<open>calculateOrderTotal\<close> returns the same total on every permutation of
  the list.
\<close>

theorem permuted_integer_lines_same_total:
  assumes "\<forall>it \<in> set items. int_line tbl it"
    and "sum_list (map (\<lambda>it. \<bar>exact_amount tbl it\<bar>) items) \<le> 2 ^ 53"
    and "mset items' = mset items"
  shows "calculateOrderTotal tbl items' = calculateOrderTotal tbl items"
proof -
  from assms(3) have set_eq: "set items' = set items"
    by (rule mset_eq_setD)
  have sums: "sum_list (map f items') = sum_list (map f items)" for f :: "item \<Rightarrow> rat"
  proof -
    have "mset (map f items') = mset (map f items)"
      using assms(3) by simp
    then show ?thesis
      by (metis sum_mset_sum_list)
  qed
  have "calculateOrderTotal tbl items' =
           js_div100 (Math_round (js_mul (Fin (sum_list (map (exact_amount tbl) items'))) (Fin 100)))"
    using assms(1,2) by (intro int_total) (simp_all add: set_eq sums)
  also have "\<dots> = calculateOrderTotal tbl items"
    using assms(1,2) by (simp add: int_total sums)
  finally show ?thesis .
qed

theorem permuted_integer_lines_witness:
  "calculateOrderTotal (Product_tbl shop)
     [line 4 2, line 1 3, line 3 0]
   = calculateOrderTotal (Product_tbl shop)
     [line 1 3, line 3 0, line 4 2] \<and>
   calculateOrderTotal (Product_tbl shop)
     [line 1 3, line 3 0, line 4 2]
     = Fin 17"
  using permuted_integer_lines_same_total
    [of "[line 1 3, line 3 0, line 4 2]"
        "Product_tbl shop"
        "[line 4 2, line 1 3, line 3 0]"]
  by (simp add: shop_defs int_line_def exact_amount_def calculateOrderTotal_def rd_eval)

section \<open>C9: a total sent by the caller\<close>

text \<open>
  Claim C9.  A \<^verbatim>\<open>total\<close> key in the request body has no effect: two requests that
  differ in that key only get the same reply and leave the same database, for
  \<^verbatim>\<open>POST /orders\<close> and for \<^verbatim>\<open>PUT /orders/:id\<close>.
\<close>

theorem caller_total_ignored:
  "createOrder (body\<lparr>body_total := t\<rparr>) d = createOrder body d \<and>
   updateOrder oid (body\<lparr>body_total := t\<rparr>) d = updateOrder oid body d"
  by (simp add: createOrder_def updateOrder_def cong: option.case_cong)

section \<open>C10: an order without lines\<close>

text \<open>
  Claim C10.  \<^verbatim>\<open>POST /orders\<close> with the id of an existing user and an empty
  \<^verbatim>\<open>products\<close> array succeeds with status 201 and stores an order whose
  \<^verbatim>\<open>products\<close> is empty and whose \<^verbatim>\<open>total\<close> is 0.  (A user id is an
  \<^verbatim>\<open>autoIncrement\<close> key, hence not 0, the one number that \<^verbatim>\<open>!userId\<close> rejects.)
\<close>

theorem createOrder_empty_products:
  assumes "body_userId body = Some uid" and "uid \<noteq> 0" and "User_tbl d uid = Some u"
    and "body_products body = Some []"
  shows "createOrder body d =
     (Order_reply 201 (next_order_id d) \<lparr>userId = uid, products = [], total = Fin 0\<rparr>,
      d\<lparr>Order_tbl := (Order_tbl d)(next_order_id d \<mapsto>
                          \<lparr>userId = uid, products = [], total = Fin 0\<rparr>),
        next_order_id := next_order_id d + 1\<rparr>)"
  using assms
  by (simp add: createOrder_def Order_create_def calculateOrderTotal_Nil Let_def)

theorem createOrder_empty_products_witness:
  "createOrder (request (Some 1) (Some [])) shop =
     (Order_reply 201 8 \<lparr>userId = 1, products = [], total = Fin 0\<rparr>,
      shop\<lparr>Order_tbl := (Order_tbl shop)(8 \<mapsto> \<lparr>userId = 1, products = [],
      total = Fin 0\<rparr>), next_order_id := 9\<rparr>)"
  using createOrder_empty_products
    [of "request (Some 1) (Some [])" 1 shop alice]
  by (simp add: shop_def)

end
